theory Spec2Isabelle
  imports Main
begin

section \<open>Data model (dbresolver.go, config.go)\<close>

text \<open>
  \<^verbatim>\<open>type Driver string\<close> with the three constants of dbresolver.go.
\<close>

type_synonym Driver = string

definition Sqlite :: Driver where
  "Sqlite = ''sqlite''"

definition MySQL :: Driver where
  "MySQL = ''mysql''"

definition Postgres :: Driver where
  "Postgres = ''postgres''"

record DBDriver =
  Driver :: Driver
  Database :: string

text \<open>
  \<^verbatim>\<open>type DatabaseConfig map[string]map[string]string\<close>. A Go map has no duplicate keys and
  \<^verbatim>\<open>range\<close> visits every key once in an unspecified order, so every function that ranges
  over a map takes the order of the visit as a list of keys.
\<close>

type_synonym DatabaseConfig = "string \<rightharpoonup> (string \<rightharpoonup> string)"

text \<open>
  The gorm side. A dialector remembers which \<^verbatim>\<open>Open\<close> built it and the data source name;
  \<^verbatim>\<open>*gorm.Config\<close> is opaque; a \<^verbatim>\<open>*gorm.DB\<close> is a pointer, so a handle carries the
  number of the \<^verbatim>\<open>gorm.Open\<close> call that allocated it (\<open>ptr\<close>): two handles are the same
  instance exactly when they are equal.
\<close>

datatype Dialector = sqlite_Open string | mysql_Open string | postgres_Open string

datatype gorm_Config = DefaultConfig | UserConfig nat

record gorm_DB =
  ptr :: nat
  Dialector :: Dialector
  Config :: gorm_Config

text \<open>
  Every error value and every panic of the package. The formatted message of an error
  (\<^verbatim>\<open>fmt.Errorf\<close> with the key) is determined by the constructor and its argument.
\<close>

datatype error =
    ErrUnsupportedDriver Driver
  | ErrOpen string
  | ErrNoConfiguration string
  | ErrNoDatabase string
  | ErrNoConnection string
  | PanicDriverNotSpecified
  | PanicDatabaseNotSpecified
  | PanicMigrate string
  | PanicTypeAssertion

record DBResolver =
  conns :: "string \<rightharpoonup> gorm_DB"
  databaseConfig :: DatabaseConfig
  config :: gorm_Config

text \<open>
  \<^verbatim>\<open>type Option func(resolver *DBResolver)\<close>; the fields of the resolver are unexported and
  \<^verbatim>\<open>GormConfig\<close> is the only option the package builds.
\<close>

datatype Option = GormConfig gorm_Config

fun apply_Option :: "Option \<Rightarrow> DBResolver \<Rightarrow> DBResolver" where
  "apply_Option (GormConfig c) resolver = resolver\<lparr>config := c\<rparr>"

section \<open>config.go: DatabaseDrivers\<close>

text \<open>
  One descriptor is appended per entry visited; a missing \<^verbatim>\<open>driver\<close> or \<^verbatim>\<open>database\<close> key
  panics. A key of the visiting order that is not in the map is never produced by
  \<^verbatim>\<open>range\<close> and is skipped.
\<close>

fun DatabaseDrivers :: "DatabaseConfig \<Rightarrow> string list \<Rightarrow> error + DBDriver list" where
  "DatabaseDrivers dbconfig [] = Inr []"
| "DatabaseDrivers dbconfig (k # ks) =
     (case dbconfig k of
        None \<Rightarrow> DatabaseDrivers dbconfig ks
      | Some dbmap \<Rightarrow>
          (case dbmap ''driver'' of
             None \<Rightarrow> Inl PanicDriverNotSpecified
           | Some driver \<Rightarrow>
               (case dbmap ''database'' of
                  None \<Rightarrow> Inl PanicDatabaseNotSpecified
                | Some database \<Rightarrow>
                    (case DatabaseDrivers dbconfig ks of
                       Inl e \<Rightarrow> Inl e
                     | Inr databaseNames \<Rightarrow>
                         Inr (\<lparr>Driver = driver, Database = database\<rparr> # databaseNames)))))"

section \<open>dbresolver.go: New\<close>

text \<open>
  \<^verbatim>\<open>gorm.Open\<close> is the outside world: given the number of the call, the dialector and the
  configuration it either fails with a message or succeeds.
\<close>

type_synonym gorm_Open = "nat \<Rightarrow> Dialector \<Rightarrow> gorm_Config \<Rightarrow> string option"

definition createDB :: "gorm_Open \<Rightarrow> nat \<Rightarrow> Dialector \<Rightarrow> gorm_Config \<Rightarrow> error + gorm_DB" where
  "createDB opn n dialector cfg =
     (case opn n dialector cfg of
        Some err \<Rightarrow> Inl (ErrOpen err)
      | None \<Rightarrow> Inr \<lparr>ptr = n, Dialector = dialector, Config = cfg\<rparr>)"

text \<open>The \<^verbatim>\<open>switch dbDriver.Driver\<close> of New.\<close>

definition dialect_of :: "DBDriver \<Rightarrow> error + Dialector" where
  "dialect_of dbDriver =
     (let database = Database dbDriver in
      if Driver dbDriver = Sqlite then Inr (sqlite_Open database)
      else if Driver dbDriver = MySQL then Inr (mysql_Open database)
      else if Driver dbDriver = Postgres then Inr (postgres_Open database)
      else Inl (ErrUnsupportedDriver (Driver dbDriver)))"

text \<open>
  The loop of New over the descriptors. Beside the resolver it threads the list of the
  handles opened so far, in the order of opening; the result keeps that list, so that
  what was opened can be stated also when New fails.
\<close>

fun New_loop :: "gorm_Open \<Rightarrow> DBDriver list \<Rightarrow> DBResolver \<Rightarrow> gorm_DB list
    \<Rightarrow> gorm_DB list \<times> (error + DBResolver)" where
  "New_loop opn [] resolver opened = (opened, Inr resolver)"
| "New_loop opn (dbDriver # rest) resolver opened =
     (case dialect_of dbDriver of
        Inl e \<Rightarrow> (opened, Inl e)
      | Inr dialect \<Rightarrow>
          (case createDB opn (length opened) dialect (config resolver) of
             Inl e \<Rightarrow> (opened, Inl e)
           | Inr conn \<Rightarrow>
               New_loop opn rest
                 (resolver\<lparr>conns := (conns resolver)(Database dbDriver \<mapsto> conn)\<rparr>)
                 (opened @ [conn])))"

definition New :: "gorm_Open \<Rightarrow> string list \<Rightarrow> DatabaseConfig \<Rightarrow> Option list
    \<Rightarrow> gorm_DB list \<times> (error + DBResolver)" where
  "New opn order c options =
     (let resolver = fold apply_Option options
            \<lparr>conns = Map.empty, databaseConfig = c, config = DefaultConfig\<rparr>
      in case DatabaseDrivers c order of
           Inl e \<Rightarrow> ([], Inl e)
         | Inr drivers \<Rightarrow> New_loop opn drivers resolver [])"

section \<open>dbresolver.go: the resolver\<close>

definition resolveConnection :: "DBResolver \<Rightarrow> string \<Rightarrow> error + gorm_DB" where
  "resolveConnection resolver apiKey =
     (case databaseConfig resolver apiKey of
        None \<Rightarrow> Inl (ErrNoConfiguration apiKey)
      | Some databaseMap \<Rightarrow>
          (case databaseMap ''database'' of
             None \<Rightarrow> Inl (ErrNoDatabase apiKey)
           | Some databaseName \<Rightarrow>
               (case conns resolver databaseName of
                  None \<Rightarrow> Inl (ErrNoConnection apiKey)
                | Some conn \<Rightarrow> Inr conn)))"

definition resolveDatabaseName :: "DBResolver \<Rightarrow> string \<Rightarrow> error + string" where
  "resolveDatabaseName resolver apiKey =
     (case databaseConfig resolver apiKey of
        None \<Rightarrow> Inl (ErrNoConfiguration apiKey)
      | Some databaseMap \<Rightarrow>
          (case databaseMap ''database'' of
             None \<Rightarrow> Inl (ErrNoDatabase apiKey)
           | Some databaseName \<Rightarrow> Inr databaseName))"

section \<open>dbresolver.go: the middleware and the accessors\<close>

text \<open>
  A request context is the chain built by \<^verbatim>\<open>context.WithValue\<close>: the newest pair first.
  Keys of the package have the type \<^verbatim>\<open>ContextValue\<close>; keys of other packages have other
  types and never equal them. The values are \<^verbatim>\<open>interface{}\<close>.
\<close>

datatype ContextKey = ContextValue string | ForeignKey string

datatype any = AnyDB gorm_DB | AnyString string | AnyOther nat

type_synonym Context = "(ContextKey \<times> any) list"

definition ConnectionContextKey :: ContextKey where
  "ConnectionContextKey = ContextValue ''connection''"

definition DatabaseContextKey :: ContextKey where
  "DatabaseContextKey = ContextValue ''database''"

definition WithValue :: "Context \<Rightarrow> ContextKey \<Rightarrow> any \<Rightarrow> Context" where
  "WithValue ctx k v = (k, v) # ctx"

definition Value :: "Context \<Rightarrow> ContextKey \<Rightarrow> any option" where
  "Value ctx k = map_of ctx k"

text \<open>
  The part of \<^verbatim>\<open>*http.Request\<close> the middleware reads: the header fields and the parsed
  query, both from a name to the list of its values, and the context.
  \<^verbatim>\<open>Header.Get\<close> looks the canonical form of the name up (the function
  \<^verbatim>\<open>textproto.CanonicalMIMEHeaderKey\<close> of the standard library, a parameter here) and
  returns the first value or the empty string; \<^verbatim>\<open>url.Values.Get\<close> does the same with
  the name as it is.
\<close>

record Request =
  Header :: "string \<rightharpoonup> string list"
  URL_Query :: "string \<rightharpoonup> string list"
  Context :: Context

definition Values_Get :: "(string \<rightharpoonup> string list) \<Rightarrow> string \<Rightarrow> string" where
  "Values_Get vs key = (case vs key of None \<Rightarrow> [] | Some [] \<Rightarrow> [] | Some (v # _) \<Rightarrow> v)"

definition Header_Get :: "(string \<Rightarrow> string) \<Rightarrow> (string \<rightharpoonup> string list) \<Rightarrow> string \<Rightarrow> string" where
  "Header_Get canon h key = Values_Get h (canon key)"

text \<open>
  What the wrapped handler does with the response writer: either \<^verbatim>\<open>http.Error\<close> with the
  message of the error and the status, and the downstream handler is not called, or
  whatever the downstream handler \<open>next\<close> produces for the request it is given.
\<close>

datatype 'w Response = http_Error error nat | ServeHTTP 'w

definition StatusInternalServerError :: nat where
  "StatusInternalServerError = 500"

text \<open>Lines 152 to 155: the key of the request, \<open>apiKeyHeader\<close> being the global name.\<close>

definition request_apiKey :: "(string \<Rightarrow> string) \<Rightarrow> string \<Rightarrow> Request \<Rightarrow> string" where
  "request_apiKey canon apiKeyHeader r =
     (let apiKey = Header_Get canon (Header r) apiKeyHeader
      in if apiKey = [] then Values_Get (URL_Query r) apiKeyHeader else apiKey)"

definition Middleware :: "(string \<Rightarrow> string) \<Rightarrow> string \<Rightarrow> DBResolver \<Rightarrow> (Request \<Rightarrow> 'w)
    \<Rightarrow> Request \<Rightarrow> 'w Response" where
  "Middleware canon apiKeyHeader resolver next r =
     (let apiKey = request_apiKey canon apiKeyHeader r
      in case resolveConnection resolver apiKey of
           Inl err \<Rightarrow> http_Error err StatusInternalServerError
         | Inr db \<Rightarrow>
             (let ctx = WithValue (Context r) ConnectionContextKey (AnyDB db);
                  dbname = (case resolveDatabaseName resolver apiKey of
                              Inl _ \<Rightarrow> []
                            | Inr n \<Rightarrow> n);
                  ctx = WithValue ctx DatabaseContextKey (AnyString dbname)
              in ServeHTTP (next (r\<lparr>Context := ctx\<rparr>))))"

text \<open>The accessors: an unchecked type assertion panics on a missing or mistyped value.\<close>

definition DB :: "Request \<Rightarrow> error + gorm_DB" where
  "DB r = (case Value (Context r) ConnectionContextKey of
             Some (AnyDB db) \<Rightarrow> Inr db
           | _ \<Rightarrow> Inl PanicTypeAssertion)"

definition DBName :: "Request \<Rightarrow> error + string" where
  "DBName r = (case Value (Context r) DatabaseContextKey of
                 Some (AnyString dbName) \<Rightarrow> Inr dbName
               | _ \<Rightarrow> Inl PanicTypeAssertion)"

section \<open>dbresolver.go: AutoMigrate\<close>

text \<open>
  \<^verbatim>\<open>conn.AutoMigrate(models...)\<close> belongs to gorm: \<open>migrate\<close> gives its error, if any.
  The loop returns the handles on which the migration was attempted, in order, and the
  panic that ended it, if one did. The body is
  \<^verbatim>\<open>if err != nil && errorCallback(err) { panic(err) }\<close>.
\<close>

fun AutoMigrate_loop :: "(gorm_DB \<Rightarrow> 'm \<Rightarrow> string option) \<Rightarrow> 'm \<Rightarrow> (string \<Rightarrow> bool)
    \<Rightarrow> gorm_DB list \<Rightarrow> gorm_DB list \<times> error option" where
  "AutoMigrate_loop migrate models errorCallback [] = ([], None)"
| "AutoMigrate_loop migrate models errorCallback (conn # rest) =
     (case migrate conn models of
        None \<Rightarrow>
          (case AutoMigrate_loop migrate models errorCallback rest of
             (attempted, res) \<Rightarrow> (conn # attempted, res))
      | Some err \<Rightarrow>
          if errorCallback err then ([conn], Some (PanicMigrate err))
          else (case AutoMigrate_loop migrate models errorCallback rest of
                  (attempted, res) \<Rightarrow> (conn # attempted, res)))"

definition AutoMigrate :: "(gorm_DB \<Rightarrow> 'm \<Rightarrow> string option) \<Rightarrow> string list \<Rightarrow> DBResolver
    \<Rightarrow> 'm \<Rightarrow> (string \<Rightarrow> bool) \<Rightarrow> gorm_DB list \<times> error option" where
  "AutoMigrate migrate order resolver models errorCallback =
     AutoMigrate_loop migrate models errorCallback (List.map_filter (conns resolver) order)"

section \<open>Observations and sample inputs used in the statements\<close>

text \<open>
  What a handle was opened with: the data source name and the driver kind of its
  dialector, the descriptor they form, and the registry entry New stores for the handle
  (\<^verbatim>\<open>resolver.conns[database] = conn\<close>).
\<close>

fun database_of :: "Dialector \<Rightarrow> string" where
  "database_of (sqlite_Open s) = s"
| "database_of (mysql_Open s) = s"
| "database_of (postgres_Open s) = s"

fun driver_of :: "Dialector \<Rightarrow> Driver" where
  "driver_of (sqlite_Open s) = Sqlite"
| "driver_of (mysql_Open s) = MySQL"
| "driver_of (postgres_Open s) = Postgres"

definition descriptor_of :: "gorm_DB \<Rightarrow> DBDriver" where
  "descriptor_of h = \<lparr>Driver = driver_of (Dialector h), Database = database_of (Dialector h)\<rparr>"

definition registry_entry :: "gorm_DB \<Rightarrow> string \<times> gorm_DB" where
  "registry_entry h = (database_of (Dialector h), h)"

text \<open>
  Sample inputs: a world in which every \<^verbatim>\<open>gorm.Open\<close> succeeds; the configuration
  \<^verbatim>\<open>{"k1": {database: "a.db", driver: "sqlite"}}\<close>; two sqlite tenants sharing
  \<^verbatim>\<open>a.db\<close>; two tenants with a database each; a configuration whose only
  key is the empty string; a migration that fails on every backend; a constant failure
  policy; a request without header and query; the canonical form of the default header
  name and a request carrying \<^verbatim>\<open>x-api-key: k1\<close>; the handle that the n-th successful
  \<^verbatim>\<open>gorm.Open\<close> returns under the default configuration.
\<close>

definition open_ok :: gorm_Open where
  "open_ok n dialector cfg = None"

definition config_k1 :: DatabaseConfig where
  "config_k1 = [''k1'' \<mapsto> [''database'' \<mapsto> ''a.db'', ''driver'' \<mapsto> ''sqlite'']]"

definition config_shared :: DatabaseConfig where
  "config_shared =
     [''k1'' \<mapsto> [''database'' \<mapsto> ''a.db'', ''driver'' \<mapsto> ''sqlite''],
      ''k2'' \<mapsto> [''database'' \<mapsto> ''a.db'', ''driver'' \<mapsto> ''sqlite'']]"

definition config_two :: DatabaseConfig where
  "config_two =
     [''k1'' \<mapsto> [''database'' \<mapsto> ''a.db'', ''driver'' \<mapsto> ''sqlite''],
      ''k2'' \<mapsto> [''database'' \<mapsto> ''b.db'', ''driver'' \<mapsto> ''sqlite'']]"

definition config_empty_key :: DatabaseConfig where
  "config_empty_key = [[] \<mapsto> [''database'' \<mapsto> ''a.db'', ''driver'' \<mapsto> ''sqlite'']]"

definition migrate_fails :: "gorm_DB \<Rightarrow> unit \<Rightarrow> string option" where
  "migrate_fails conn models = Some ''table exists''"

definition always :: "bool \<Rightarrow> string \<Rightarrow> bool" where
  "always b err = b"

definition bare_request :: Request where
  "bare_request = \<lparr>Header = Map.empty, URL_Query = Map.empty, Context = []\<rparr>"

definition handle :: "nat \<Rightarrow> Dialector \<Rightarrow> gorm_DB" where
  "handle n dialector = \<lparr>ptr = n, Dialector = dialector, Config = DefaultConfig\<rparr>"

definition canonical_sample :: "string \<Rightarrow> string" where
  "canonical_sample name = (if name = ''x-api-key'' then ''X-Api-Key'' else name)"

definition request_k1 :: Request where
  "request_k1 = \<lparr>Header = [''X-Api-Key'' \<mapsto> [''k1'']], URL_Query = Map.empty, Context = []\<rparr>"

section \<open>Facts about New shared by the theorems\<close>

lemma dialect_of_Inr:
  "dialect_of d = Inr x \<Longrightarrow> database_of x = Database d \<and> driver_of x = Driver d"
  by (auto simp: dialect_of_def Let_def split: if_splits)

lemma createDB_Inr:
  "createDB opn n x cfg = Inr conn \<Longrightarrow> conn = \<lparr>ptr = n, Dialector = x, Config = cfg\<rparr>"
  by (auto simp: createDB_def split: option.splits)

lemma New_loop_Inr:
  "New_loop opn drivers resolver opened = (opened', Inr resolver') \<Longrightarrow>
   \<exists>news. opened' = opened @ news
     \<and> map ptr news = [length opened ..< length opened + length drivers]
     \<and> map descriptor_of news = drivers
     \<and> map Config news = replicate (length drivers) (config resolver)
     \<and> conns resolver' = conns resolver ++ map_of (rev (map registry_entry news))
     \<and> databaseConfig resolver' = databaseConfig resolver
     \<and> config resolver' = config resolver"
proof (induction drivers arbitrary: resolver opened)
  case Nil
  then show ?case by simp
next
  case (Cons d rest)
  from Cons.prems obtain x where x: "dialect_of d = Inr x"
    by (auto split: sum.splits)
  from Cons.prems x obtain conn where
    conn: "createDB opn (length opened) x (config resolver) = Inr conn"
    by (auto split: sum.splits)
  let ?r = "resolver\<lparr>conns := (conns resolver)(Database d \<mapsto> conn)\<rparr>"
  from Cons.prems x conn have
    rec: "New_loop opn rest ?r (opened @ [conn]) = (opened', Inr resolver')"
    by simp
  from Cons.IH [OF rec] obtain news where news:
    "opened' = (opened @ [conn]) @ news"
    "map ptr news = [length (opened @ [conn]) ..< length (opened @ [conn]) + length rest]"
    "map descriptor_of news = rest"
    "map Config news = replicate (length rest) (config ?r)"
    "conns resolver' = conns ?r ++ map_of (rev (map registry_entry news))"
    "databaseConfig resolver' = databaseConfig ?r"
    "config resolver' = config ?r"
    by blast
  have c: "conn = \<lparr>ptr = length opened, Dialector = x, Config = config resolver\<rparr>"
    using createDB_Inr [OF conn] .
  have d: "descriptor_of conn = d"
    using dialect_of_Inr [OF x] c by (simp add: descriptor_of_def)
  have e: "registry_entry conn = (Database d, conn)"
    using dialect_of_Inr [OF x] c by (simp add: registry_entry_def)
  have m: "conns ?r ++ map_of (rev (map registry_entry news))
      = conns resolver ++ map_of (rev (map registry_entry (conn # news)))"
    by (simp add: e fun_eq_iff map_add_def split: option.splits)
  have p: "map ptr (conn # news) = [length opened ..< length opened + length (d # rest)]"
  proof -
    have a: "length (opened @ [conn]) = Suc (length opened)"
      by simp
    have b: "length opened + length (d # rest) = Suc (length opened) + length rest"
      by simp
    have u: "[length opened ..< Suc (length opened) + length rest]
        = length opened # [Suc (length opened) ..< Suc (length opened) + length rest]"
      by (rule upt_conv_Cons) simp
    have "ptr conn = length opened"
      using c by simp
    then show ?thesis
      unfolding b u using news(2) unfolding a by (simp only: list.map)
  qed
  show ?case
    apply (rule exI [of _ "conn # news"])
    using news d m p c by simp
qed

lemma DatabaseDrivers_Inr:
  "DatabaseDrivers c ks = Inr ds \<Longrightarrow> set ks \<subseteq> dom c \<Longrightarrow>
   list_all2 (\<lambda>k d. \<exists>m. c k = Some m \<and> m ''driver'' = Some (Driver d)
                \<and> m ''database'' = Some (Database d)) ks ds"
proof (induction ks arbitrary: ds)
  case Nil
  then show ?case by simp
next
  case (Cons k ks)
  then show ?case
    by (auto split: option.splits sum.splits)
qed

lemma fold_apply_Option:
  "conns (fold apply_Option options r) = conns r
   \<and> databaseConfig (fold apply_Option options r) = databaseConfig r"
proof (induction options arbitrary: r)
  case Nil
  show ?case by simp
next
  case (Cons a options)
  show ?case by (cases a) (simp add: Cons.IH)
qed

lemma New_Inr:
  assumes "New opn order c options = (opened, Inr resolver)" and "set order \<subseteq> dom c"
  shows "list_all2 (\<lambda>k h. \<exists>m. c k = Some m \<and> m ''driver'' = Some (driver_of (Dialector h))
                \<and> m ''database'' = Some (database_of (Dialector h))) order opened
     \<and> map ptr opened = [0 ..< length order]
     \<and> conns resolver = map_of (rev (map registry_entry opened))
     \<and> databaseConfig resolver = c"
proof -
  let ?r0 = "fold apply_Option options
               \<lparr>conns = Map.empty, databaseConfig = c, config = DefaultConfig\<rparr>"
  from assms(1) obtain ds where ds: "DatabaseDrivers c order = Inr ds"
    and loop: "New_loop opn ds ?r0 [] = (opened, Inr resolver)"
    by (auto simp: New_def Let_def split: sum.splits)
  from New_loop_Inr [OF loop] have
    o: "map ptr opened = [0 ..< length ds]" "map descriptor_of opened = ds"
    and cs: "conns resolver = conns ?r0 ++ map_of (rev (map registry_entry opened))"
    and dc: "databaseConfig resolver = databaseConfig ?r0"
    by auto
  have l: "list_all2 (\<lambda>k d. \<exists>m. c k = Some m \<and> m ''driver'' = Some (Driver d)
                \<and> m ''database'' = Some (Database d)) order ds"
    using DatabaseDrivers_Inr [OF ds assms(2)] .
  have len: "length ds = length order"
    using l by (simp add: list_all2_lengthD)
  have "list_all2 (\<lambda>k h. \<exists>m. c k = Some m \<and> m ''driver'' = Some (driver_of (Dialector h))
                \<and> m ''database'' = Some (database_of (Dialector h))) order opened"
    using l o(2) by (auto simp: list_all2_conv_all_nth descriptor_of_def dest!: arg_cong [where f = "\<lambda>xs. xs ! i" for i])
  then show ?thesis
    using o(1) cs dc len by (simp add: fold_apply_Option)
qed

lemma New_registry_domain:
  assumes "New opn order c options = (opened, Inr resolver)"
    and "set order = dom c"
  shows "dom (conns resolver) = {d. \<exists>k m. c k = Some m \<and> m ''database'' = Some d}"
proof -
  have sub: "set order \<subseteq> dom c"
    using assms(2) by simp
  note n = New_Inr [OF assms(1) sub]
  have "dom (conns resolver) = (\<lambda>h. database_of (Dialector h)) ` set opened"
    using n by (auto simp: dom_map_of_conv_image_fst registry_entry_def image_iff)
  also have "\<dots> = {d. \<exists>k m. c k = Some m \<and> m ''database'' = Some d}"
  proof (intro set_eqI iffI)
    fix d assume "d \<in> (\<lambda>h. database_of (Dialector h)) ` set opened"
    then obtain i where "i < length opened" "d = database_of (Dialector (opened ! i))"
      by (auto simp: in_set_conv_nth)
    then show "d \<in> {d. \<exists>k m. c k = Some m \<and> m ''database'' = Some d}"
      using n by (fastforce simp: list_all2_conv_all_nth)
  next
    fix d assume "d \<in> {d. \<exists>k m. c k = Some m \<and> m ''database'' = Some d}"
    then obtain k m where km: "c k = Some m" "m ''database'' = Some d"
      by blast
    then have "k \<in> set order"
      using assms(2) by auto
    then obtain i where i: "i < length order" "order ! i = k"
      by (auto simp: in_set_conv_nth)
    then have "i < length opened" "database_of (Dialector (opened ! i)) = d"
      using n km by (auto simp: list_all2_conv_all_nth)
    then show "d \<in> (\<lambda>h. database_of (Dialector h)) ` set opened"
      by (metis imageI nth_mem)
  qed
  finally show ?thesis .
qed

subsection \<open>New on the sample configurations\<close>

lemma New_config_k1:
  "New open_ok [''k1''] config_k1 [] =
     ([handle 0 (sqlite_Open ''a.db'')],
      Inr \<lparr>conns = [''a.db'' \<mapsto> handle 0 (sqlite_Open ''a.db'')],
           databaseConfig = config_k1, config = DefaultConfig\<rparr>)"
  by (simp add: New_def config_k1_def dialect_of_def createDB_def open_ok_def handle_def
      Sqlite_def MySQL_def Postgres_def)

lemma New_config_shared:
  "New open_ok [''k1'', ''k2''] config_shared [] =
     ([handle 0 (sqlite_Open ''a.db''), handle 1 (sqlite_Open ''a.db'')],
      Inr \<lparr>conns = [''a.db'' \<mapsto> handle 1 (sqlite_Open ''a.db'')],
           databaseConfig = config_shared, config = DefaultConfig\<rparr>)"
  by (simp add: New_def config_shared_def dialect_of_def createDB_def open_ok_def handle_def
      Sqlite_def MySQL_def Postgres_def)

lemma New_config_two:
  "New open_ok [''k1'', ''k2''] config_two [] =
     ([handle 0 (sqlite_Open ''a.db''), handle 1 (sqlite_Open ''b.db'')],
      Inr \<lparr>conns = [''a.db'' \<mapsto> handle 0 (sqlite_Open ''a.db''),
                    ''b.db'' \<mapsto> handle 1 (sqlite_Open ''b.db'')],
           databaseConfig = config_two, config = DefaultConfig\<rparr>)"
  by (simp add: New_def config_two_def dialect_of_def createDB_def open_ok_def handle_def
      Sqlite_def MySQL_def Postgres_def)

lemma New_config_empty_key:
  "New open_ok [[]] config_empty_key [] =
     ([handle 0 (sqlite_Open ''a.db'')],
      Inr \<lparr>conns = [''a.db'' \<mapsto> handle 0 (sqlite_Open ''a.db'')],
           databaseConfig = config_empty_key, config = DefaultConfig\<rparr>)"
  by (simp add: New_def config_empty_key_def dialect_of_def createDB_def open_ok_def handle_def
      Sqlite_def MySQL_def Postgres_def)

lemma dom_config_shared: "dom config_shared = {''k1'', ''k2''}"
  by (auto simp: config_shared_def)

subsection \<open>The sample request and tenant\<close>

lemma request_k1_apiKey: "request_apiKey canonical_sample ''x-api-key'' request_k1 = ''k1''"
  by (simp add: request_apiKey_def Header_Get_def Values_Get_def request_k1_def
      canonical_sample_def)

lemma k1_resolves:
  "resolveConnection
     \<lparr>conns = [''a.db'' \<mapsto> handle 0 (sqlite_Open ''a.db'')],
      databaseConfig = config_k1, config = DefaultConfig\<rparr> ''k1''
   = Inr (handle 0 (sqlite_Open ''a.db''))"
  by (simp add: resolveConnection_def config_k1_def)

section \<open>The bulk schema operator\<close>

text \<open>
  C1. The claim: a failure for which the policy returns true is tolerated and the
  iteration goes on; a failure for which it returns false aborts at once with a panic.
  The comment above AutoMigrate says the same. The loop does the opposite. On the
  resolver that New builds for two tenants with a database each, with a migration that
  fails on every backend: under the policy that always returns true the first failure
  panics and the second backend is never attempted; under the policy that always returns
  false both backends are attempted and the call returns normally.
\<close>

theorem AutoMigrate_policy_inverted:
  "snd (New open_ok [''k1'', ''k2''] config_two []) =
     Inr \<lparr>conns = [''a.db'' \<mapsto> handle 0 (sqlite_Open ''a.db''),
                   ''b.db'' \<mapsto> handle 1 (sqlite_Open ''b.db'')],
          databaseConfig = config_two, config = DefaultConfig\<rparr>
   \<and> AutoMigrate migrate_fails [''a.db'', ''b.db'']
        \<lparr>conns = [''a.db'' \<mapsto> handle 0 (sqlite_Open ''a.db''),
                  ''b.db'' \<mapsto> handle 1 (sqlite_Open ''b.db'')],
         databaseConfig = config_two, config = DefaultConfig\<rparr> () (always True)
       = ([handle 0 (sqlite_Open ''a.db'')], Some (PanicMigrate ''table exists''))
   \<and> AutoMigrate migrate_fails [''a.db'', ''b.db'']
        \<lparr>conns = [''a.db'' \<mapsto> handle 0 (sqlite_Open ''a.db''),
                  ''b.db'' \<mapsto> handle 1 (sqlite_Open ''b.db'')],
         databaseConfig = config_two, config = DefaultConfig\<rparr> () (always False)
       = ([handle 0 (sqlite_Open ''a.db''), handle 1 (sqlite_Open ''b.db'')], None)"
  by (simp add: New_config_two AutoMigrate_def List.map_filter_def migrate_fails_def always_def)

section \<open>The backend registry\<close>

text \<open>
  C2, as amended. When New returns a resolver, it has opened exactly one connection per
  tenant entry of the configuration, in the order of the visit and each with the driver
  kind and the identifier of its entry, all of them distinct handles; the registry
  holds a handle for exactly the identifiers the configuration references, one per
  identifier, and for an identifier shared by several entries it is the handle opened
  for the last of them (a later store overwrites an earlier one).
\<close>

theorem New_one_connection_per_tenant_entry:
  assumes "New opn order c options = (opened, Inr resolver)"
    and "distinct order" and "set order = dom c"
  shows "length opened = card (dom c)
     \<and> list_all2 (\<lambda>k h. \<exists>m. c k = Some m \<and> m ''driver'' = Some (driver_of (Dialector h))
                \<and> m ''database'' = Some (database_of (Dialector h))) order opened
     \<and> map ptr opened = [0 ..< card (dom c)]
     \<and> conns resolver = map_of (rev (map registry_entry opened))
     \<and> dom (conns resolver) = {d. \<exists>k m. c k = Some m \<and> m ''database'' = Some d}"
proof -
  have sub: "set order \<subseteq> dom c"
    using assms(3) by simp
  note n = New_Inr [OF assms(1) sub]
  have card: "card (dom c) = length order"
    using assms(2,3) distinct_card [of order] by simp
  have len: "length opened = length order"
    using n by (auto dest: list_all2_lengthD)
  show ?thesis
    using n card len New_registry_domain [OF assms(1,3)] by simp
qed

text \<open>
  The theorem at the configuration of two tenants that share \<^verbatim>\<open>a.db\<close>, visited in the
  order k1, k2.
\<close>

theorem New_one_connection_per_tenant_entry_witness:
  "New open_ok [''k1'', ''k2''] config_shared [] =
     ([handle 0 (sqlite_Open ''a.db''), handle 1 (sqlite_Open ''a.db'')],
      Inr \<lparr>conns = [''a.db'' \<mapsto> handle 1 (sqlite_Open ''a.db'')],
           databaseConfig = config_shared, config = DefaultConfig\<rparr>)
   \<and> distinct [''k1'', ''k2''] \<and> set [''k1'', ''k2''] = dom config_shared
   \<and> length [handle 0 (sqlite_Open ''a.db''), handle 1 (sqlite_Open ''a.db'')]
       = card (dom config_shared)
   \<and> map ptr [handle 0 (sqlite_Open ''a.db''), handle 1 (sqlite_Open ''a.db'')]
       = [0 ..< card (dom config_shared)]
   \<and> [''a.db'' \<mapsto> handle 1 (sqlite_Open ''a.db'')]
       = map_of (rev (map registry_entry
           [handle 0 (sqlite_Open ''a.db''), handle 1 (sqlite_Open ''a.db'')]))"
proof -
  have d: "distinct [''k1'', ''k2'']"
    by simp
  have s: "set [''k1'', ''k2''] = dom config_shared"
    by (simp add: dom_config_shared insert_commute)
  show ?thesis
    using New_one_connection_per_tenant_entry [OF New_config_shared d s] New_config_shared d s
    by simp
qed

text \<open>
  The claim as stated fails there: the configuration references one identifier, New
  opens two connections for it, and the handle the registry keeps is the second one,
  opened for k2, the entry visited last; the handle opened for k1, visited first, is
  in no registry entry.
\<close>

theorem New_first_entry_counterexample:
  "fst (New open_ok [''k1'', ''k2''] config_shared [])
     = [handle 0 (sqlite_Open ''a.db''), handle 1 (sqlite_Open ''a.db'')]
   \<and> card {d. \<exists>k m. config_shared k = Some m \<and> m ''database'' = Some d} = 1
   \<and> conns (projr (snd (New open_ok [''k1'', ''k2''] config_shared []))) ''a.db''
       = Some (handle 1 (sqlite_Open ''a.db''))
   \<and> handle 0 (sqlite_Open ''a.db'')
       \<notin> ran (conns (projr (snd (New open_ok [''k1'', ''k2''] config_shared []))))"
proof -
  have "{d. \<exists>k m. config_shared k = Some m \<and> m ''database'' = Some d} = {''a.db''}"
    by (auto simp: config_shared_def split: if_splits)
  then show ?thesis
    by (simp add: New_config_shared) (simp add: handle_def)
qed

section \<open>The resolver\<close>

text \<open>
  C3, as amended. resolveDatabaseName performs the lookups in the configuration only
  (the entry of the tenant, then its \<^verbatim>\<open>database\<close> key). It never consults the registry:
  its result is the same whatever the registry holds, it never fails with the
  no-connection error, and it returns the canonical identifier exactly when the entry of
  the tenant has the \<^verbatim>\<open>database\<close> key; it fails with the unknown-tenant error exactly when
  the tenant has no entry and with the missing-database-key error exactly when the entry
  lacks the key.
\<close>

theorem resolveDatabaseName_config_only:
  "resolveDatabaseName (resolver\<lparr>conns := cs\<rparr>) apiKey = resolveDatabaseName resolver apiKey
   \<and> resolveDatabaseName resolver apiKey \<noteq> Inl (ErrNoConnection k)
   \<and> (resolveDatabaseName resolver apiKey = Inl (ErrNoConfiguration apiKey)
      \<longleftrightarrow> databaseConfig resolver apiKey = None)
   \<and> (resolveDatabaseName resolver apiKey = Inl (ErrNoDatabase apiKey)
      \<longleftrightarrow> (\<exists>m. databaseConfig resolver apiKey = Some m \<and> m ''database'' = None))
   \<and> (resolveDatabaseName resolver apiKey = Inr d
      \<longleftrightarrow> (\<exists>m. databaseConfig resolver apiKey = Some m \<and> m ''database'' = Some d))"
  by (auto simp: resolveDatabaseName_def split: option.splits)

text \<open>
  The claim as stated fails on a resolver whose registry is empty while the
  configuration maps k1 to \<^verbatim>\<open>a.db\<close>: the identifier has no handle, resolveConnection
  reports the missing connection, and resolveDatabaseName returns \<^verbatim>\<open>a.db\<close> without error.
\<close>

theorem resolveDatabaseName_counterexample:
  "conns \<lparr>conns = Map.empty, databaseConfig = config_k1, config = DefaultConfig\<rparr> ''a.db''
     = None
   \<and> resolveConnection
        \<lparr>conns = Map.empty, databaseConfig = config_k1, config = DefaultConfig\<rparr> ''k1''
       = Inl (ErrNoConnection ''k1'')
   \<and> resolveDatabaseName
        \<lparr>conns = Map.empty, databaseConfig = config_k1, config = DefaultConfig\<rparr> ''k1''
       = Inr ''a.db''"
  by (simp add: resolveDatabaseName_def resolveConnection_def config_k1_def)

text \<open>
  C4. resolveConnection fails with the unknown-tenant error exactly when the tenant has
  no configuration entry, with the missing-database-key error exactly when the entry
  exists and lacks the \<^verbatim>\<open>database\<close> key, with the no-connection error exactly when the
  identifier the entry maps to has no handle in the registry, and returns a handle
  exactly when it is the one the registry stores under that identifier.
\<close>

theorem resolveConnection_outcomes:
  "(resolveConnection resolver apiKey = Inl (ErrNoConfiguration apiKey)
      \<longleftrightarrow> databaseConfig resolver apiKey = None)
   \<and> (resolveConnection resolver apiKey = Inl (ErrNoDatabase apiKey)
      \<longleftrightarrow> (\<exists>m. databaseConfig resolver apiKey = Some m \<and> m ''database'' = None))
   \<and> (resolveConnection resolver apiKey = Inl (ErrNoConnection apiKey)
      \<longleftrightarrow> (\<exists>m d. databaseConfig resolver apiKey = Some m \<and> m ''database'' = Some d
                 \<and> conns resolver d = None))
   \<and> (resolveConnection resolver apiKey = Inr h
      \<longleftrightarrow> (\<exists>m d. databaseConfig resolver apiKey = Some m \<and> m ''database'' = Some d
                 \<and> conns resolver d = Some h))"
  by (auto simp: resolveConnection_def split: option.splits)

text \<open>
  C8. Two tenants whose configuration entries map to the same canonical identifier
  resolve to the identical handle: resolveConnection returns a handle for the one
  exactly when it returns that same handle for the other, and it is the handle the
  registry stores under the shared identifier.
\<close>

theorem resolveConnection_shared:
  assumes "databaseConfig resolver t1 = Some m1" and "m1 ''database'' = Some d"
    and "databaseConfig resolver t2 = Some m2" and "m2 ''database'' = Some d"
  shows "(resolveConnection resolver t1 = Inr h \<longleftrightarrow> resolveConnection resolver t2 = Inr h)
     \<and> (resolveConnection resolver t1 = Inr h \<longleftrightarrow> conns resolver d = Some h)"
  using assms by (auto simp: resolveConnection_def split: option.splits)

text \<open>
  The theorem at the two tenants of the sample configuration that share \<^verbatim>\<open>a.db\<close>, on the
  resolver New builds for it.
\<close>

theorem resolveConnection_shared_witness:
  "config_shared ''k1'' = Some [''database'' \<mapsto> ''a.db'', ''driver'' \<mapsto> ''sqlite'']
   \<and> [''database'' \<mapsto> ''a.db'', ''driver'' \<mapsto> ''sqlite''] ''database'' = Some ''a.db''
   \<and> config_shared ''k2'' = Some [''database'' \<mapsto> ''a.db'', ''driver'' \<mapsto> ''sqlite'']
   \<and> [''database'' \<mapsto> ''a.db'', ''driver'' \<mapsto> ''sqlite''] ''database'' = Some ''a.db''
   \<and> resolveConnection
        \<lparr>conns = [''a.db'' \<mapsto> handle 1 (sqlite_Open ''a.db'')],
         databaseConfig = config_shared, config = DefaultConfig\<rparr> ''k1''
       = Inr (handle 1 (sqlite_Open ''a.db''))
   \<and> resolveConnection
        \<lparr>conns = [''a.db'' \<mapsto> handle 1 (sqlite_Open ''a.db'')],
         databaseConfig = config_shared, config = DefaultConfig\<rparr> ''k2''
       = Inr (handle 1 (sqlite_Open ''a.db''))"
proof -
  let ?r = "\<lparr>conns = [''a.db'' \<mapsto> handle 1 (sqlite_Open ''a.db'')],
         databaseConfig = config_shared, config = DefaultConfig\<rparr>"
  have a: "databaseConfig ?r ''k1'' = Some [''database'' \<mapsto> ''a.db'', ''driver'' \<mapsto> ''sqlite'']"
    by (simp add: config_shared_def)
  have b: "[''database'' \<mapsto> ''a.db'', ''driver'' \<mapsto> ''sqlite''] ''database'' = Some ''a.db''"
    by simp
  have c: "databaseConfig ?r ''k2'' = Some [''database'' \<mapsto> ''a.db'', ''driver'' \<mapsto> ''sqlite'']"
    by (simp add: config_shared_def)
  have d: "[''database'' \<mapsto> ''a.db'', ''driver'' \<mapsto> ''sqlite''] ''database'' = Some ''a.db''"
    by simp
  show ?thesis
    using resolveConnection_shared [OF a b c d, of "handle 1 (sqlite_Open ''a.db'')"] a b c d
    by auto
qed

text \<open>
  C10. Whenever resolveConnection returns a handle for a key, resolveDatabaseName
  returns for that key without error, and what it returns is a registry key under which
  that handle is stored; so the error the middleware discards on the success path is
  never set.
\<close>

theorem resolveDatabaseName_after_resolveConnection:
  assumes "resolveConnection resolver k = Inr h"
  shows "\<exists>d. resolveDatabaseName resolver k = Inr d \<and> conns resolver d = Some h"
  using assms
  by (auto simp: resolveConnection_def resolveDatabaseName_def split: option.splits)

text \<open>
  The theorem at the tenant k1 of the sample configuration.
\<close>

theorem resolveDatabaseName_after_resolveConnection_witness:
  "resolveConnection
     \<lparr>conns = [''a.db'' \<mapsto> handle 0 (sqlite_Open ''a.db'')],
      databaseConfig = config_k1, config = DefaultConfig\<rparr> ''k1''
     = Inr (handle 0 (sqlite_Open ''a.db''))
   \<and> (\<exists>d. resolveDatabaseName
          \<lparr>conns = [''a.db'' \<mapsto> handle 0 (sqlite_Open ''a.db'')],
           databaseConfig = config_k1, config = DefaultConfig\<rparr> ''k1'' = Inr d
        \<and> conns \<lparr>conns = [''a.db'' \<mapsto> handle 0 (sqlite_Open ''a.db'')],
           databaseConfig = config_k1, config = DefaultConfig\<rparr> d
          = Some (handle 0 (sqlite_Open ''a.db'')))"
  using resolveDatabaseName_after_resolveConnection [OF k1_resolves] k1_resolves
  by blast

section \<open>The request-scope binder\<close>

text \<open>
  C5. The middleware takes the tenant identifier from the header of the configured name
  and, when that header is absent or its value empty, from the query parameter of the
  same name (the empty string when that is absent too). Whenever resolving it fails,
  the response is the server error 500 with the error of the failure, whatever the
  downstream handler is: the handler is not invoked. (Writing the error to the log is
  not modelled.)
\<close>

theorem Middleware_rejects:
  assumes "resolveConnection resolver (request_apiKey canon name r) = Inl err"
  shows "Middleware canon name resolver next r = http_Error err 500
     \<and> request_apiKey canon name r =
         (case Header r (canon name) of
            Some (v # vs) \<Rightarrow>
              if v = [] then (case URL_Query r name of Some (q # qs) \<Rightarrow> q | _ \<Rightarrow> []) else v
          | _ \<Rightarrow> (case URL_Query r name of Some (q # qs) \<Rightarrow> q | _ \<Rightarrow> []))"
  using assms
  by (auto simp: Middleware_def request_apiKey_def Header_Get_def Values_Get_def
      StatusInternalServerError_def Let_def split: option.splits list.splits)

text \<open>
  The theorem at a request carrying no identifier in either source, on the resolver of
  the sample configuration: the key is the empty string, which has no entry.
\<close>

theorem Middleware_rejects_witness:
  "resolveConnection
     \<lparr>conns = [''a.db'' \<mapsto> handle 0 (sqlite_Open ''a.db'')],
      databaseConfig = config_k1, config = DefaultConfig\<rparr>
     (request_apiKey canonical_sample ''x-api-key'' bare_request) = Inl (ErrNoConfiguration [])
   \<and> Middleware canonical_sample ''x-api-key''
        \<lparr>conns = [''a.db'' \<mapsto> handle 0 (sqlite_Open ''a.db'')],
         databaseConfig = config_k1, config = DefaultConfig\<rparr> DB bare_request
       = http_Error (ErrNoConfiguration []) 500
   \<and> request_apiKey canonical_sample ''x-api-key'' bare_request = []"
proof -
  have k: "request_apiKey canonical_sample ''x-api-key'' bare_request = []"
    by (simp add: request_apiKey_def Header_Get_def Values_Get_def bare_request_def)
  have h: "resolveConnection
     \<lparr>conns = [''a.db'' \<mapsto> handle 0 (sqlite_Open ''a.db'')],
      databaseConfig = config_k1, config = DefaultConfig\<rparr>
     (request_apiKey canonical_sample ''x-api-key'' bare_request) = Inl (ErrNoConfiguration [])"
    by (simp add: k resolveConnection_def config_k1_def)
  show ?thesis
    using Middleware_rejects [OF h, of DB] h k by simp
qed

text \<open>
  C6. Whenever the tenant identifier of the request resolves to a handle, the middleware
  invokes the downstream handler with the request whose context is the context of the
  incoming request extended by the handle and by the canonical identifier of the tenant;
  on that request DB returns the resolved handle and DBName the identifier, which is the
  one the configuration gives the tenant and the registry key of the handle.
\<close>

theorem Middleware_binds:
  assumes "resolveConnection resolver (request_apiKey canon name r) = Inr db"
  shows "\<exists>d m r'.
       Middleware canon name resolver next r = ServeHTTP (next r')
     \<and> databaseConfig resolver (request_apiKey canon name r) = Some m
     \<and> m ''database'' = Some d \<and> conns resolver d = Some db
     \<and> r' = r\<lparr>Context := (DatabaseContextKey, AnyString d)
                  # (ConnectionContextKey, AnyDB db) # Context r\<rparr>
     \<and> DB r' = Inr db \<and> DBName r' = Inr d"
  using assms
  by (auto simp: Middleware_def resolveConnection_def resolveDatabaseName_def WithValue_def
      DB_def DBName_def Value_def ConnectionContextKey_def DatabaseContextKey_def Let_def
      split: option.splits)

text \<open>
  The theorem at the sample of the specification: with the configuration
  \<^verbatim>\<open>{"k1": {database: "a.db", driver: "sqlite"}}\<close>, a request with the header
  \<^verbatim>\<open>x-api-key: k1\<close> reaches a downstream handler that reads both accessors.
\<close>

theorem Middleware_binds_witness:
  "resolveConnection
     \<lparr>conns = [''a.db'' \<mapsto> handle 0 (sqlite_Open ''a.db'')],
      databaseConfig = config_k1, config = DefaultConfig\<rparr>
     (request_apiKey canonical_sample ''x-api-key'' request_k1)
     = Inr (handle 0 (sqlite_Open ''a.db''))
   \<and> Middleware canonical_sample ''x-api-key''
        \<lparr>conns = [''a.db'' \<mapsto> handle 0 (sqlite_Open ''a.db'')],
         databaseConfig = config_k1, config = DefaultConfig\<rparr>
        (\<lambda>r. (DB r, DBName r)) request_k1
       = ServeHTTP (Inr (handle 0 (sqlite_Open ''a.db'')), Inr ''a.db'')"
proof -
  have h: "resolveConnection
     \<lparr>conns = [''a.db'' \<mapsto> handle 0 (sqlite_Open ''a.db'')],
      databaseConfig = config_k1, config = DefaultConfig\<rparr>
     (request_apiKey canonical_sample ''x-api-key'' request_k1)
     = Inr (handle 0 (sqlite_Open ''a.db''))"
    by (simp add: request_k1_apiKey k1_resolves)
  have c: "config_k1 ''k1'' = Some [''database'' \<mapsto> ''a.db'', ''driver'' \<mapsto> ''sqlite'']"
    by (simp add: config_k1_def)
  from Middleware_binds [OF h, of "\<lambda>r. (DB r, DBName r)"] obtain d m r' where
    "Middleware canonical_sample ''x-api-key''
        \<lparr>conns = [''a.db'' \<mapsto> handle 0 (sqlite_Open ''a.db'')],
         databaseConfig = config_k1, config = DefaultConfig\<rparr>
        (\<lambda>r. (DB r, DBName r)) request_k1 = ServeHTTP (DB r', DBName r')"
    "config_k1 (request_apiKey canonical_sample ''x-api-key'' request_k1) = Some m"
    "m ''database'' = Some d" "DB r' = Inr (handle 0 (sqlite_Open ''a.db''))"
    "DBName r' = Inr d"
    by auto
  then show ?thesis
    using h c by (auto simp: request_k1_apiKey)
qed

text \<open>
  C9, as amended. The code has no check that the identifier is non-empty: the empty
  string is looked up like any other key. Resolving it fails, with the unknown-tenant
  error, whenever the configuration has no entry for the empty string, and then a request
  that supplies no identifier in header or query parameter is rejected with that error
  and bound to no handle.
\<close>

theorem empty_key_without_entry:
  assumes "databaseConfig resolver [] = None"
    and "Header_Get canon (Header r) name = []" and "Values_Get (URL_Query r) name = []"
  shows "resolveConnection resolver [] = Inl (ErrNoConfiguration [])
     \<and> Middleware canon name resolver next r = http_Error (ErrNoConfiguration []) 500"
  using assms
  by (simp add: Middleware_def resolveConnection_def request_apiKey_def
      StatusInternalServerError_def)

text \<open>
  The theorem at the request without header and query, on the resolver of the sample
  configuration.
\<close>

theorem empty_key_without_entry_witness:
  "databaseConfig \<lparr>conns = [''a.db'' \<mapsto> handle 0 (sqlite_Open ''a.db'')],
      databaseConfig = config_k1, config = DefaultConfig\<rparr> [] = None
   \<and> Header_Get canonical_sample (Header bare_request) ''x-api-key'' = []
   \<and> Values_Get (URL_Query bare_request) ''x-api-key'' = []
   \<and> resolveConnection \<lparr>conns = [''a.db'' \<mapsto> handle 0 (sqlite_Open ''a.db'')],
      databaseConfig = config_k1, config = DefaultConfig\<rparr> [] = Inl (ErrNoConfiguration [])
   \<and> Middleware canonical_sample ''x-api-key''
        \<lparr>conns = [''a.db'' \<mapsto> handle 0 (sqlite_Open ''a.db'')],
         databaseConfig = config_k1, config = DefaultConfig\<rparr> DB bare_request
       = http_Error (ErrNoConfiguration []) 500"
proof -
  let ?r = "\<lparr>conns = [''a.db'' \<mapsto> handle 0 (sqlite_Open ''a.db'')],
      databaseConfig = config_k1, config = DefaultConfig\<rparr>"
  have a: "databaseConfig ?r [] = None"
    by (simp add: config_k1_def)
  have b: "Header_Get canonical_sample (Header bare_request) ''x-api-key'' = []"
    by (simp add: Header_Get_def Values_Get_def bare_request_def)
  have c: "Values_Get (URL_Query bare_request) ''x-api-key'' = []"
    by (simp add: Values_Get_def bare_request_def)
  show ?thesis
    using empty_key_without_entry [OF a b c, of DB] a b c by simp
qed

text \<open>
  The claim as stated fails on the configuration whose only key is the empty string: New
  succeeds, the empty identifier resolves to the handle of \<^verbatim>\<open>a.db\<close>, and the request
  without header and query is passed to the downstream handler, bound to that handle.
\<close>

theorem empty_key_resolves_counterexample:
  "snd (New open_ok [[]] config_empty_key []) =
     Inr \<lparr>conns = [''a.db'' \<mapsto> handle 0 (sqlite_Open ''a.db'')],
          databaseConfig = config_empty_key, config = DefaultConfig\<rparr>
   \<and> resolveConnection
        \<lparr>conns = [''a.db'' \<mapsto> handle 0 (sqlite_Open ''a.db'')],
         databaseConfig = config_empty_key, config = DefaultConfig\<rparr> []
       = Inr (handle 0 (sqlite_Open ''a.db''))
   \<and> Middleware canonical_sample ''x-api-key''
        \<lparr>conns = [''a.db'' \<mapsto> handle 0 (sqlite_Open ''a.db'')],
         databaseConfig = config_empty_key, config = DefaultConfig\<rparr> DB bare_request
       = ServeHTTP (Inr (handle 0 (sqlite_Open ''a.db'')))"
  by (simp add: New_config_empty_key)
     (simp add: Middleware_def resolveConnection_def resolveDatabaseName_def request_apiKey_def
      Header_Get_def Values_Get_def bare_request_def config_empty_key_def WithValue_def DB_def
      Value_def ConnectionContextKey_def DatabaseContextKey_def)

section \<open>Initialization, then resolution\<close>

text \<open>
  C7. If New returns a resolver for a configuration, then for every tenant identifier that
  is a key of the configuration resolveConnection returns a handle, so none of its three
  errors arises, and the handle is one of those New opened. resolveConnection reads the
  resolver and changes nothing, so every call with the key returns that same handle.
\<close>

theorem New_then_resolveConnection:
  assumes "New opn order c options = (opened, Inr resolver)"
    and "set order = dom c" and "k \<in> dom c"
  shows "\<exists>h. resolveConnection resolver k = Inr h \<and> h \<in> set opened"
proof -
  have sub: "set order \<subseteq> dom c"
    using assms(2) by simp
  note n = New_Inr [OF assms(1) sub]
  from assms(2,3) have "k \<in> set order"
    by simp
  then obtain i where i: "i < length order" "order ! i = k"
    by (auto simp: in_set_conv_nth)
  from n i obtain m where m: "c k = Some m"
      "m ''database'' = Some (database_of (Dialector (opened ! i)))" and il: "i < length opened"
    by (auto simp: list_all2_conv_all_nth)
  have "registry_entry (opened ! i) \<in> set (rev (map registry_entry opened))"
    using il by simp
  then have "database_of (Dialector (opened ! i)) \<in> dom (map_of (rev (map registry_entry opened)))"
    unfolding dom_map_of_conv_image_fst
    by (metis fst_conv image_eqI registry_entry_def)
  then obtain h where h: "conns resolver (database_of (Dialector (opened ! i))) = Some h"
    using n by auto
  then have "(database_of (Dialector (opened ! i)), h) \<in> set (rev (map registry_entry opened))"
    using n by (auto dest: map_of_SomeD)
  then have "h \<in> set opened"
    by (auto simp: registry_entry_def)
  moreover have "resolveConnection resolver k = Inr h"
    using n m h by (simp add: resolveConnection_def)
  ultimately show ?thesis by blast
qed

text \<open>
  The theorem at the tenant k1 of the configuration of two tenants sharing \<^verbatim>\<open>a.db\<close>.
\<close>

theorem New_then_resolveConnection_witness:
  "New open_ok [''k1'', ''k2''] config_shared [] =
     ([handle 0 (sqlite_Open ''a.db''), handle 1 (sqlite_Open ''a.db'')],
      Inr \<lparr>conns = [''a.db'' \<mapsto> handle 1 (sqlite_Open ''a.db'')],
           databaseConfig = config_shared, config = DefaultConfig\<rparr>)
   \<and> set [''k1'', ''k2''] = dom config_shared \<and> ''k1'' \<in> dom config_shared
   \<and> (\<exists>h. resolveConnection \<lparr>conns = [''a.db'' \<mapsto> handle 1 (sqlite_Open ''a.db'')],
           databaseConfig = config_shared, config = DefaultConfig\<rparr> ''k1'' = Inr h
         \<and> h \<in> set [handle 0 (sqlite_Open ''a.db''), handle 1 (sqlite_Open ''a.db'')])"
proof -
  have s: "set [''k1'', ''k2''] = dom config_shared"
    by (simp add: dom_config_shared insert_commute)
  have k: "''k1'' \<in> dom config_shared"
    by (simp add: dom_config_shared)
  show ?thesis
    using New_then_resolveConnection [OF New_config_shared s k] New_config_shared s k
    by blast
qed

end
